theory Spec2Isabelle
  imports Complex_Main
begin

section \<open>Values, records and the data frame\<close>

text \<open>
  The program \<^verbatim>\<open>barcodes.py\<close> reads the columns \<^verbatim>\<open>serial\<close> and \<^verbatim>\<open>device_name\<close> of the
  table \<^verbatim>\<open>laptops\<close>. Both are text columns, \<^verbatim>\<open>device_name\<close> nullable, so a value is
  either SQL NULL (Python \<^verbatim>\<open>None\<close> once it is in the data frame) or a text (Python
  \<^verbatim>\<open>str\<close>). A Python string is modelled as a \<^typ>\<open>string\<close>, each character being the
  code point of the same number (code points above 255 are outside the model).
\<close>

datatype pyval = PyNone | PyStr string

text \<open>Python truthiness, as used by \<^verbatim>\<open>x if x else y\<close>.\<close>

fun truthy :: "pyval \<Rightarrow> bool" where
  "truthy PyNone = False"
| "truthy (PyStr s) = (s \<noteq> [])"

text \<open>\<^verbatim>\<open>str(v)\<close>.\<close>

fun py_str :: "pyval \<Rightarrow> string" where
  "py_str PyNone = ''None''"
| "py_str (PyStr s) = s"

record row =
  serial :: pyval
  device_name :: pyval

type_synonym dataframe = "row list"

text \<open>
  \<^verbatim>\<open>c.isalnum()\<close> on one character: the decimal digits, the ASCII letters, and
  in the upper half of Latin-1 the code points that Unicode classes as letter, digit or
  numeric (170, 178, 179, 181, 185, 186, 188 to 190, 192 to 255 without 215 and 247).
\<close>

definition isalnum :: "char \<Rightarrow> bool" where
  "isalnum c =
     (let n = (of_char c :: nat)
      in (48 \<le> n \<and> n \<le> 57) \<or> (65 \<le> n \<and> n \<le> 90) \<or> (97 \<le> n \<and> n \<le> 122)
         \<or> n = 170 \<or> n = 178 \<or> n = 179 \<or> n = 181 \<or> n = 185 \<or> n = 186
         \<or> (188 \<le> n \<and> n \<le> 190) \<or> (192 \<le> n \<and> n \<le> 214)
         \<or> (216 \<le> n \<and> n \<le> 246) \<or> (248 \<le> n \<and> n \<le> 255))"

text \<open>\<^verbatim>\<open>os.path.join(a, b)\<close> of \<^verbatim>\<open>posixpath\<close>, for two components.\<close>

definition path_join :: "string \<Rightarrow> string \<Rightarrow> string" where
  "path_join a b =
     (if b \<noteq> [] \<and> hd b = CHR ''/'' then b
      else if a = [] \<or> last a = CHR ''/'' then a @ b
      else a @ ''/'' @ b)"

section \<open>Configuration\<close>

definition DB_FILE :: string where
  "DB_FILE = ''inventaris.sqlite''"

definition PDF_FILENAME :: string where
  "PDF_FILENAME = ''inventaris_barcodes.pdf''"

definition TEMP_IMG_DIR :: string where
  "TEMP_IMG_DIR = ''temp_barcodes''"

section \<open>Documents, files and the world\<close>

text \<open>The units of \<^verbatim>\<open>reportlab.lib.units\<close>, in points, as exact rationals.\<close>

definition inch :: rat where
  "inch = 72"

definition cm :: rat where
  "cm = inch / 2.54"

definition mm :: rat where
  "mm = cm * 0.1"

text \<open>The option dictionary handed to the barcode writer.\<close>

record options =
  write_text :: bool
  font_size :: nat
  module_height :: rat
  quiet_zone :: rat

text \<open>
  The flowables the program creates: \<^verbatim>\<open>Image(path)\<close> with its \<^verbatim>\<open>drawHeight\<close> and
  \<^verbatim>\<open>drawWidth\<close>, \<^verbatim>\<open>Paragraph(markup, style)\<close> (the style by its name), and
  \<^verbatim>\<open>Table(data, colWidths)\<close>. A cell is the list of flowables in it, the empty cell is
  the empty list. The table style, which is the same for every input, is left out.
\<close>

type_synonym path = string

datatype flowable =
    Image path rat rat
  | Paragraph string string
  | Table "flowable list list list" "rat list"

type_synonym cell = "flowable list"

text \<open>A raised \<^verbatim>\<open>Exception\<close>, with its message.\<close>

datatype exn = Exn string

text \<open>
  The files the program deals with: a barcode image (its payload and the writer options),
  the document (its flowables), and an incomplete output file, as a failed write may
  leave it behind.
\<close>

datatype fsfile =
    Png string options
  | Pdf "flowable list"
  | Residue

text \<open>What the program prints, one constructor for each \<^verbatim>\<open>print\<close> of the source.\<close>

datatype message =
    DbNotFound string
  | RecordsFound nat
  | NoData
  | PdfInfo string
  | PdfSuccess string
  | PdfError exn

text \<open>
  The world the program runs in. \<open>db_file\<close> is the file \<^verbatim>\<open>DB_FILE\<close>: \<open>None\<close> when it
  does not exist, otherwise the rows of its table \<^verbatim>\<open>laptops\<close> in the order in which a
  scan returns them. \<open>files\<close> are the other files, \<open>dirs\<close> the directories, \<open>stdout\<close>
  the lines printed so far, \<open>cwd\<close> the working directory.
\<close>

record world =
  db_file :: "row list option"
  files :: "path \<rightharpoonup> fsfile"
  dirs :: "path set"
  stdout :: "message list"
  cwd :: path

text \<open>
  The two library calls that can fail. \<open>code128 s\<close> stands for
  \<^verbatim>\<open>Code128(s, writer=writer)\<close> followed by \<^verbatim>\<open>save\<close>: \<open>None\<close> when the symbol is
  encoded and written, \<open>Some e\<close> when the library raises \<open>e\<close>. \<open>doc_build\<close> stands for
  \<^verbatim>\<open>doc.build(elements)\<close>: it either writes the document, or raises an \<^verbatim>\<open>Exception\<close>
  and leaves something (or nothing) at the output path.
\<close>

datatype build_outcome = Built | Raised exn "fsfile option"

record libs =
  code128 :: "string \<Rightarrow> exn option"
  doc_build :: "flowable list \<Rightarrow> world \<Rightarrow> build_outcome"

definition print_msg :: "message \<Rightarrow> world \<Rightarrow> world" where
  "print_msg m w = w\<lparr>stdout := stdout w @ [m]\<rparr>"

definition makedirs :: "path \<Rightarrow> world \<Rightarrow> world" where
  "makedirs d w = w\<lparr>dirs := insert d (dirs w)\<rparr>"

definition abspath :: "world \<Rightarrow> path \<Rightarrow> path" where
  "abspath w p = path_join (cwd w) p"

section \<open>The loader\<close>

text \<open>
  The \<^verbatim>\<open>WHERE\<close> clause \<^verbatim>\<open>serial IS NOT NULL AND serial != ''\<close> in SQL's three-valued
  logic (\<open>None\<close> is the unknown truth value); a row is selected when the clause is true.
\<close>

definition sql_is_not_null :: "pyval \<Rightarrow> bool option" where
  "sql_is_not_null v = Some (v \<noteq> PyNone)"

fun sql_ne :: "pyval \<Rightarrow> pyval \<Rightarrow> bool option" where
  "sql_ne (PyStr a) (PyStr b) = Some (a \<noteq> b)"
| "sql_ne _ _ = None"

definition sql_and :: "bool option \<Rightarrow> bool option \<Rightarrow> bool option" where
  "sql_and a b =
     (if a = Some False \<or> b = Some False then Some False
      else if a = Some True \<and> b = Some True then Some True
      else None)"

definition query_where :: "row \<Rightarrow> bool option" where
  "query_where r = sql_and (sql_is_not_null (serial r)) (sql_ne (serial r) (PyStr ''''))"

definition read_sql_query :: "row list \<Rightarrow> dataframe" where
  "read_sql_query t = filter (\<lambda>r. query_where r = Some True) t"

definition get_data_from_db :: "world \<Rightarrow> dataframe \<times> world" where
  "get_data_from_db w =
     (case db_file w of
        None \<Rightarrow> ([], print_msg (DbNotFound DB_FILE) w)
      | Some t \<Rightarrow> (read_sql_query t, w))"

section \<open>The barcode generator\<close>

definition generate_temp_barcode ::
  "libs \<Rightarrow> pyval \<Rightarrow> path \<Rightarrow> world \<Rightarrow> (exn + path) \<times> world" where
  "generate_temp_barcode L sn outdir w =
     (let safe_sn = map (\<lambda>c. if isalnum c then c else CHR ''_'') (py_str sn);
          file_path = path_join outdir safe_sn;
          opts = \<lparr>write_text = True, font_size = 8, module_height = 10, quiet_zone = 1\<rparr>
      in case code128 L (py_str sn) of
           Some e \<Rightarrow> (Inl e, w)
         | None \<Rightarrow>
             (let saved_path = file_path @ ''.png''
              in (Inr saved_path,
                  w\<lparr>files := (files w)(saved_path \<mapsto> Png (py_str sn) opts)\<rparr>)))"

section \<open>The document assembler\<close>

text \<open>
  The loop over the rows of the data frame (\<^verbatim>\<open>for index, item in df.iterrows()\<close>), with
  the table built so far and the row being filled as accumulators. An exception of the
  generator ends the loop and is the result.
\<close>

fun rows_loop ::
  "libs \<Rightarrow> dataframe \<Rightarrow> cell list list \<Rightarrow> cell list \<Rightarrow> world
     \<Rightarrow> (exn + cell list list \<times> cell list) \<times> world" where
  "rows_loop L [] table_data row w = (Inr (table_data, row), w)"
| "rows_loop L (item # items) table_data row w =
     (let sn = serial item;
          d_name = (if truthy (device_name item) then py_str (device_name item)
                    else ''Onbekend device'')
      in case generate_temp_barcode L sn TEMP_IMG_DIR w of
           (Inl e, w') \<Rightarrow> (Inl e, w')
         | (Inr img_path, w') \<Rightarrow>
             (let img = Image img_path (25 * mm) (50 * mm);
                  p_text = Paragraph (''<b>'' @ d_name @ ''</b>'') ''DeviceName'';
                  cell_content = [img, p_text];
                  row' = row @ [cell_content]
              in if length row' = 2 then rows_loop L items (table_data @ [row']) [] w'
                 else rows_loop L items table_data row' w'))"

text \<open>
  Lines 79 to 111 of \<^verbatim>\<open>create_pdf\<close>: the loop, then the padding of a last row that
  holds one cell.
\<close>

definition table_data_of ::
  "libs \<Rightarrow> dataframe \<Rightarrow> world \<Rightarrow> (exn + cell list list) \<times> world" where
  "table_data_of L df w =
     (case rows_loop L df [] [] w of
        (Inl e, w') \<Rightarrow> (Inl e, w')
      | (Inr (table_data, row), w') \<Rightarrow>
          (Inr (if row \<noteq> [] then table_data @ [row @ [[]]] else table_data), w'))"

definition create_pdf :: "libs \<Rightarrow> dataframe \<Rightarrow> world \<Rightarrow> (exn + unit) \<times> world" where
  "create_pdf L df w0 =
     (let w1 = print_msg (PdfInfo PDF_FILENAME) w0;
          w2 = makedirs TEMP_IMG_DIR w1
      in case table_data_of L df w2 of
           (Inl e, w3) \<Rightarrow> (Inl e, w3)
         | (Inr table_data, w3) \<Rightarrow>
             (let col_width = 90 * mm;
                  t = Table table_data [col_width, col_width];
                  elements = [t]
              in case doc_build L elements w3 of
                   Built \<Rightarrow>
                     (Inr (),
                      print_msg (PdfSuccess (abspath w3 PDF_FILENAME))
                        (w3\<lparr>files := (files w3)(PDF_FILENAME \<mapsto> Pdf elements)\<rparr>))
                 | Raised e left \<Rightarrow>
                     (Inr (),
                      print_msg (PdfError e)
                        (w3\<lparr>files := (files w3)(PDF_FILENAME := left)\<rparr>))))"

section \<open>The entry point\<close>

definition main :: "libs \<Rightarrow> world \<Rightarrow> (exn + unit) \<times> world" where
  "main L w0 =
     (let (df, w1) = get_data_from_db w0;
          w2 = print_msg (RecordsFound (length df)) w1
      in if df \<noteq> [] then create_pdf L df w2
         else (Inr (), print_msg NoData w2))"

section \<open>Closed forms of what one run computes\<close>

text \<open>
  The quantities the statements below speak about, written out once: the sanitised
  base name of a serial, the path and the content of its image file, the label and the
  cell of a record, the world after the images of a list of records have been written,
  and the records whose serial the encoder accepts.
\<close>

definition safe_name :: "string \<Rightarrow> string" where
  "safe_name s = map (\<lambda>c. if isalnum c then c else CHR ''_'') s"

definition image_path :: "pyval \<Rightarrow> path" where
  "image_path sn = ''temp_barcodes/'' @ safe_name (py_str sn) @ ''.png''"

definition image_file :: "pyval \<Rightarrow> fsfile" where
  "image_file sn =
     Png (py_str sn) \<lparr>write_text = True, font_size = 8, module_height = 10, quiet_zone = 1\<rparr>"

definition label_of :: "row \<Rightarrow> string" where
  "label_of r =
     (if truthy (device_name r) then py_str (device_name r) else ''Onbekend device'')"

definition cell_of :: "row \<Rightarrow> cell" where
  "cell_of r =
     [Image (image_path (serial r)) (25 * mm) (50 * mm),
      Paragraph (''<b>'' @ label_of r @ ''</b>'') ''DeviceName'']"

fun write_images :: "row list \<Rightarrow> world \<Rightarrow> world" where
  "write_images [] w = w"
| "write_images (r # rs) w =
     write_images rs (w\<lparr>files := (files w)(image_path (serial r) \<mapsto> image_file (serial r))\<rparr>)"

definition encodes :: "libs \<Rightarrow> row \<Rightarrow> bool" where
  "encodes L r = (code128 L (py_str (serial r)) = None)"

section \<open>An example environment\<close>

text \<open>
  A concrete encoder that accepts the non-empty ASCII strings, a document writer that
  always succeeds, a fresh world around a given database, and three records.
\<close>

definition code128_ascii :: "string \<Rightarrow> exn option" where
  "code128_ascii s =
     (if s \<noteq> [] \<and> list_all (\<lambda>c. (of_char c :: nat) < 128) s then None
      else Some (Exn ''IllegalCharacterError''))"

definition example_libs :: libs where
  "example_libs = \<lparr>code128 = code128_ascii, doc_build = (\<lambda>els w. Built)\<rparr>"

definition example_world :: "row list option \<Rightarrow> world" where
  "example_world t =
     \<lparr>db_file = t, files = Map.empty, dirs = {}, stdout = [], cwd = ''/home/user''\<rparr>"




definition mixed_rows :: "row list" where
  "mixed_rows =
     [\<lparr>serial = PyStr ''ABC123'', device_name = PyStr ''Laptop A''\<rparr>,
      \<lparr>serial = PyNone, device_name = PyStr ''Laptop B''\<rparr>,
      \<lparr>serial = PyStr '''', device_name = PyStr ''Laptop C''\<rparr>,
      \<lparr>serial = PyStr ''XYZ789'', device_name = PyNone\<rparr>]"

definition unqualified_rows :: "row list" where
  "unqualified_rows =
     [\<lparr>serial = PyNone, device_name = PyStr ''Laptop B''\<rparr>,
      \<lparr>serial = PyStr '''', device_name = PyStr ''Laptop C''\<rparr>]"

definition failing_libs :: libs where
  "failing_libs =
     \<lparr>code128 = code128_ascii,
      doc_build = (\<lambda>els w. Raised (Exn ''Permission denied'') None)\<rparr>"


section \<open>The generator and the loop\<close>

lemma not_isalnum_slash: "\<not> isalnum CHR ''/''"
  by (simp add: isalnum_def)

lemma safe_name_no_slash: "s \<noteq> [] \<Longrightarrow> hd (safe_name s) \<noteq> CHR ''/''"
  by (cases s) (auto simp: safe_name_def not_isalnum_slash)

lemma join_temp_dir: "path_join TEMP_IMG_DIR (safe_name s) = ''temp_barcodes/'' @ safe_name s"
proof (cases "s = []")
  case True
  then show ?thesis by (simp add: path_join_def TEMP_IMG_DIR_def safe_name_def)
next
  case False
  then have "hd (safe_name s) \<noteq> CHR ''/''" by (rule safe_name_no_slash)
  then show ?thesis by (simp add: path_join_def TEMP_IMG_DIR_def)
qed

lemma generate_ok:
  "code128 L (py_str sn) = None \<Longrightarrow>
   generate_temp_barcode L sn TEMP_IMG_DIR w =
     (Inr (image_path sn), w\<lparr>files := (files w)(image_path sn \<mapsto> image_file sn)\<rparr>)"
  using join_temp_dir [of "py_str sn"]
  by (simp add: generate_temp_barcode_def image_path_def image_file_def safe_name_def Let_def)

lemma generate_raises:
  "code128 L (py_str sn) = Some e \<Longrightarrow> generate_temp_barcode L sn d w = (Inl e, w)"
  by (simp add: generate_temp_barcode_def Let_def)

lemma rows_loop_ok:
  "list_all (encodes L) items \<Longrightarrow> length row < 2 \<Longrightarrow> \<forall>x\<in>set td. length x = 2 \<Longrightarrow>
   \<exists>td' row'. rows_loop L items td row w = (Inr (td', row'), write_images items w)
      \<and> concat td' @ row' = concat td @ row @ map cell_of items
      \<and> length row' < 2 \<and> (\<forall>x\<in>set td'. length x = 2)"
proof (induction items arbitrary: td row w)
  case Nil
  then show ?case by simp
next
  case (Cons r items)
  let ?w = "w\<lparr>files := (files w)(image_path (serial r) \<mapsto> image_file (serial r))\<rparr>"
  from Cons.prems(1) have "encodes L r" and rest: "list_all (encodes L) items"
    by simp_all
  then have enc: "code128 L (py_str (serial r)) = None"
    by (simp add: encodes_def)
  have gen: "generate_temp_barcode L (serial r) TEMP_IMG_DIR w = (Inr (image_path (serial r)), ?w)"
    using enc by (rule generate_ok)
  show ?case
  proof (cases "length (row @ [cell_of r]) = 2")
    case True
    have step: "rows_loop L (r # items) td row w = rows_loop L items (td @ [row @ [cell_of r]]) [] ?w"
      using True gen by (simp add: cell_of_def label_of_def Let_def)
    have "\<forall>x\<in>set (td @ [row @ [cell_of r]]). length x = 2"
      using True Cons.prems(3) by simp
    from Cons.IH [OF rest _ this, of "[]" ?w] 
    show ?thesis unfolding step by simp
  next
    case False
    have step: "rows_loop L (r # items) td row w = rows_loop L items td (row @ [cell_of r]) ?w"
      using False gen by (simp add: cell_of_def label_of_def Let_def)
    from False Cons.prems(2) have "row = []" by (cases row) auto
    then have "length (row @ [cell_of r]) < 2" by simp
    from Cons.IH [OF rest this Cons.prems(3), of ?w] 
    show ?thesis unfolding step by simp
  qed
qed


lemma rows_loop_Inr_encodes:
  "fst (rows_loop L items td row w) = Inr x \<Longrightarrow> list_all (encodes L) items"
proof (induction items arbitrary: td row w)
  case Nil
  then show ?case by simp
next
  case (Cons r items)
  show ?case
  proof (cases "code128 L (py_str (serial r))")
    case None
    then have "encodes L r" by (simp add: encodes_def)
    with generate_ok [OF None] Cons show ?thesis
      by (auto simp: Let_def split: if_splits)
  next
    case (Some e)
    from generate_raises [OF this] Cons.prems show ?thesis
      by (simp add: Let_def)
  qed
qed

lemma concat_pairs_length: "\<forall>x\<in>set td. length x = 2 \<Longrightarrow> length (concat td) = 2 * length td"
  by (induction td) auto


lemma table_data_of_ok:
  assumes "list_all (encodes L) df"
  shows "\<exists>td. table_data_of L df w = (Inr td, write_images df w)
      \<and> concat td = map cell_of df @ (if odd (length df) then [[]] else [])
      \<and> (\<forall>x\<in>set td. length x = 2)"
proof -
  from rows_loop_ok [OF assms, of "[]" "[]" w]
  obtain td' row' where loop: "rows_loop L df [] [] w = (Inr (td', row'), write_images df w)"
    and flat: "concat td' @ row' = map cell_of df"
    and short: "length row' < 2" and pairs: "\<forall>x\<in>set td'. length x = 2"
    by auto
  from flat have len: "length df = 2 * length td' + length row'"
    using concat_pairs_length [OF pairs] by (metis length_append length_map)
  show ?thesis
  proof (cases row')
    case Nil
    with loop flat pairs len show ?thesis
      by (simp add: table_data_of_def)
  next
    case (Cons c cs)
    with short have cs: "cs = []" by simp
    with Cons len have "odd (length df)" by simp
    with loop flat pairs Cons cs show ?thesis
      by (simp add: table_data_of_def)
  qed
qed

lemma table_data_of_Inr_encodes:
  "fst (table_data_of L df w) = Inr td \<Longrightarrow> list_all (encodes L) df"
  using rows_loop_Inr_encodes [of L df "[]" "[]" w]
  by (auto simp: table_data_of_def split: prod.splits sum.splits)

lemma write_images_stdout [simp]: "stdout (write_images rs w) = stdout w"
  by (induction rs arbitrary: w) auto

lemma write_images_dirs [simp]: "dirs (write_images rs w) = dirs w"
  by (induction rs arbitrary: w) auto

lemma write_images_db_file [simp]: "db_file (write_images rs w) = db_file w"
  by (induction rs arbitrary: w) auto

lemma write_images_cwd [simp]: "cwd (write_images rs w) = cwd w"
  by (induction rs arbitrary: w) auto




lemma image_path_inj: "image_path a = image_path b \<longleftrightarrow> safe_name (py_str a) = safe_name (py_str b)"
  by (simp add: image_path_def)





section \<open>The grid\<close>



lemma table_data_of_flat:
  assumes "fst (table_data_of L df w) = Inr td"
  shows "concat td = map cell_of df @ (if odd (length df) then [[]] else [])
     \<and> (\<forall>x\<in>set td. length x = 2) \<and> snd (table_data_of L df w) = write_images df w"
proof -
  from assms have "list_all (encodes L) df" by (rule table_data_of_Inr_encodes)
  from table_data_of_ok [OF this, of w] obtain td' where
    td': "table_data_of L df w = (Inr td', write_images df w)"
    "concat td' = map cell_of df @ (if odd (length df) then [[]] else [])"
    "\<forall>x\<in>set td'. length x = 2"
    by blast
  from td'(1) assms have "td' = td" by simp
  with td' show ?thesis by simp
qed













section \<open>The image files\<close>





lemma query_where_iff:
  "query_where r = Some True \<longleftrightarrow> serial r \<noteq> PyNone \<and> serial r \<noteq> PyStr ''''"
  by (cases "serial r") (simp_all add: query_where_def sql_and_def sql_is_not_null_def)

section \<open>The empty data set and the missing database\<close>

text \<open>
  C4: when the loader returns no record, \<^verbatim>\<open>main\<close> returns normally, no file and no
  directory is created or changed, and what is printed is the loader's report (if any),
  the record count 0 and the notice that there is nothing to process; nothing of
  \<^verbatim>\<open>create_pdf\<close> is printed, which is not called.
\<close>

theorem empty_dataset:
  assumes "fst (get_data_from_db w) = []"
  shows "fst (main L w) = Inr ()
     \<and> files (snd (main L w)) = files w \<and> dirs (snd (main L w)) = dirs w
     \<and> stdout (snd (main L w)) =
         stdout w @ (if db_file w = None then [DbNotFound DB_FILE] else [])
           @ [RecordsFound 0, NoData]"
proof (cases "db_file w")
  case None
  then show ?thesis
    by (simp add: main_def get_data_from_db_def print_msg_def)
next
  case (Some t)
  with assms have "read_sql_query t = []"
    by (simp add: get_data_from_db_def)
  with Some show ?thesis
    by (simp add: main_def get_data_from_db_def print_msg_def)
qed

theorem empty_dataset_witness:
  "fst (get_data_from_db (example_world (Some unqualified_rows))) = []
   \<and> fst (main example_libs (example_world (Some unqualified_rows))) = Inr ()
   \<and> files (snd (main example_libs (example_world (Some unqualified_rows)))) = Map.empty
   \<and> stdout (snd (main example_libs (example_world (Some unqualified_rows)))) = [RecordsFound 0, NoData]"
proof -
  have e: "fst (get_data_from_db (example_world (Some unqualified_rows))) = []"
    by (simp add: get_data_from_db_def example_world_def read_sql_query_def query_where_iff
        unqualified_rows_def)
  from empty_dataset [OF e, of example_libs] e show ?thesis
    by (simp add: example_world_def)
qed

text \<open>
  C5: when the database file does not exist, the loader prints that it was not found and
  returns the empty data frame, not an error; \<^verbatim>\<open>main\<close> then prints the count 0 and the
  notice, changes nothing else and returns normally.
\<close>

theorem missing_database:
  assumes "db_file w = None"
  shows "get_data_from_db w = ([], print_msg (DbNotFound DB_FILE) w)
     \<and> main L w =
         (Inr (), w\<lparr>stdout := stdout w @ [DbNotFound DB_FILE, RecordsFound 0, NoData]\<rparr>)"
  using assms by (simp add: main_def get_data_from_db_def print_msg_def)

theorem missing_database_witness:
  "db_file (example_world None) = None
   \<and> fst (get_data_from_db (example_world None)) = []
   \<and> fst (main example_libs (example_world None)) = Inr ()
   \<and> files (snd (main example_libs (example_world None))) = Map.empty
   \<and> stdout (snd (main example_libs (example_world None)))
       = [DbNotFound ''inventaris.sqlite'', RecordsFound 0, NoData]"
proof -
  have n: "db_file (example_world None) = None"
    by (simp add: example_world_def)
  from missing_database [OF n, of example_libs] n show ?thesis
    by (simp add: example_world_def DB_FILE_def)
qed

text \<open>
  C6: when the database file exists, the loader returns, in the order of the table and
  without touching the world, exactly the rows whose \<^verbatim>\<open>serial\<close> is not NULL and not the
  empty string; every returned record has a non-empty string as its serial.
\<close>

theorem loader_rows:
  assumes "db_file w = Some t"
  shows "get_data_from_db w = (filter (\<lambda>r. serial r \<noteq> PyNone \<and> serial r \<noteq> PyStr '''') t, w)
     \<and> (\<forall>r\<in>set (fst (get_data_from_db w)). \<exists>s. serial r = PyStr s \<and> s \<noteq> [])"
proof -
  have eq: "get_data_from_db w = (filter (\<lambda>r. serial r \<noteq> PyNone \<and> serial r \<noteq> PyStr '''') t, w)"
    using assms by (simp add: get_data_from_db_def read_sql_query_def query_where_iff)
  have "\<exists>s. serial r = PyStr s \<and> s \<noteq> []"
    if "r \<in> set (filter (\<lambda>r. serial r \<noteq> PyNone \<and> serial r \<noteq> PyStr '''') t)" for r
    using that by (cases "serial r") simp_all
  with eq show ?thesis by simp
qed

theorem loader_rows_witness:
  "db_file (example_world (Some mixed_rows)) = Some mixed_rows
   \<and> fst (get_data_from_db (example_world (Some mixed_rows))) =
       [\<lparr>serial = PyStr ''ABC123'', device_name = PyStr ''Laptop A''\<rparr>,
        \<lparr>serial = PyStr ''XYZ789'', device_name = PyNone\<rparr>]"
proof -
  have s: "db_file (example_world (Some mixed_rows)) = Some mixed_rows"
    by (simp add: example_world_def)
  from loader_rows [OF s] have "fst (get_data_from_db (example_world (Some mixed_rows))) =
      filter (\<lambda>r. serial r \<noteq> PyNone \<and> serial r \<noteq> PyStr '''') mixed_rows"
    by simp
  then have "fst (get_data_from_db (example_world (Some mixed_rows))) =
       [\<lparr>serial = PyStr ''ABC123'', device_name = PyStr ''Laptop A''\<rparr>,
        \<lparr>serial = PyStr ''XYZ789'', device_name = PyNone\<rparr>]"
    by (simp add: mixed_rows_def)
  with s show ?thesis ..
qed

lemma main_nonempty:
  "get_data_from_db w0 = (df, w1) \<Longrightarrow> df \<noteq> [] \<Longrightarrow>
   main L w0 = create_pdf L df (print_msg (RecordsFound (length df)) w1)"
  by (simp add: main_def)



section \<open>Failures\<close>

text \<open>
  C7: when the loader has returned records, the table has been assembled and the one
  call of \<^verbatim>\<open>doc.build\<close> raises an exception \<open>e\<close>, whatever it is and whatever it leaves
  at the output path, \<^verbatim>\<open>create_pdf\<close> returns normally, so does \<^verbatim>\<open>main\<close>, and the last
  line printed is the failure report that carries \<open>e\<close>.
\<close>

theorem write_failure_caught:
  assumes load: "get_data_from_db w0 = (df, w1)" and ne: "df \<noteq> []"
    and tbl: "table_data_of L df
        (makedirs TEMP_IMG_DIR (print_msg (PdfInfo PDF_FILENAME)
           (print_msg (RecordsFound (length df)) w1))) = (Inr td, w3)"
    and fail: "doc_build L [Table td [90 * mm, 90 * mm]] w3 = Raised e left"
  shows "fst (create_pdf L df (print_msg (RecordsFound (length df)) w1)) = Inr ()
     \<and> fst (main L w0) = Inr ()
     \<and> stdout (snd (main L w0)) =
         stdout w1 @ [RecordsFound (length df), PdfInfo PDF_FILENAME, PdfError e]"
proof -
  let ?w = "print_msg (RecordsFound (length df)) w1"
  let ?w2 = "makedirs TEMP_IMG_DIR (print_msg (PdfInfo PDF_FILENAME) ?w)"
  from tbl have "fst (table_data_of L df ?w2) = Inr td" by simp
  from table_data_of_flat [OF this] tbl have w3: "w3 = write_images df ?w2" by simp
  have cp: "create_pdf L df ?w =
      (Inr (), print_msg (PdfError e) (w3\<lparr>files := (files w3)(PDF_FILENAME := left)\<rparr>))"
    using tbl fail by (simp add: create_pdf_def Let_def)
  have out: "stdout w3 = stdout w1 @ [RecordsFound (length df), PdfInfo PDF_FILENAME]"
    by (simp add: w3 makedirs_def print_msg_def)
  have m: "main L w0 = create_pdf L df ?w"
    using load ne by (rule main_nonempty)
  have c1: "fst (create_pdf L df ?w) = Inr ()"
    by (simp add: cp)
  have c2: "fst (main L w0) = Inr ()"
    by (simp add: m cp)
  have "snd (main L w0) =
      print_msg (PdfError e) (w3\<lparr>files := (files w3)(PDF_FILENAME := left)\<rparr>)"
    by (simp only: m cp snd_conv)
  then have "stdout (snd (main L w0)) = stdout w3 @ [PdfError e]"
    by (simp add: print_msg_def)
  then have c3: "stdout (snd (main L w0)) =
         stdout w1 @ [RecordsFound (length df), PdfInfo PDF_FILENAME, PdfError e]"
    by (simp add: out)
  from c1 c2 c3 show ?thesis by (intro conjI)
qed

lemma mixed_rows_loaded:
  "get_data_from_db (example_world (Some mixed_rows)) =
     ([\<lparr>serial = PyStr ''ABC123'', device_name = PyStr ''Laptop A''\<rparr>,
       \<lparr>serial = PyStr ''XYZ789'', device_name = PyNone\<rparr>],
      example_world (Some mixed_rows))"
  by (simp add: get_data_from_db_def example_world_def read_sql_query_def query_where_iff
      mixed_rows_def)

theorem write_failure_caught_witness:
  "fst (main failing_libs (example_world (Some mixed_rows))) = Inr ()
   \<and> stdout (snd (main failing_libs (example_world (Some mixed_rows)))) =
       [RecordsFound 2, PdfInfo ''inventaris_barcodes.pdf'', PdfError (Exn ''Permission denied'')]"
proof -
  let ?df = "[\<lparr>serial = PyStr ''ABC123'', device_name = PyStr ''Laptop A''\<rparr>,
       \<lparr>serial = PyStr ''XYZ789'', device_name = PyNone\<rparr>]"
  let ?w1 = "example_world (Some mixed_rows)"
  let ?w2 = "makedirs TEMP_IMG_DIR (print_msg (PdfInfo PDF_FILENAME)
           (print_msg (RecordsFound (length ?df)) ?w1))"
  have enc: "list_all (encodes failing_libs) ?df"
    by (simp add: encodes_def failing_libs_def code128_ascii_def)
  from table_data_of_ok [OF enc, of ?w2]
  obtain td where tbl: "table_data_of failing_libs ?df ?w2 = (Inr td, write_images ?df ?w2)"
    by blast
  have fail: "doc_build failing_libs [Table td [90 * mm, 90 * mm]] (write_images ?df ?w2)
      = Raised (Exn ''Permission denied'') None"
    by (simp add: failing_libs_def)
  have ne: "?df \<noteq> []" by simp
  from write_failure_caught [OF mixed_rows_loaded ne tbl fail]
  show ?thesis
    by (simp add: example_world_def PDF_FILENAME_def)
qed




section \<open>The fixed constants\<close>




section \<open>Colliding file names\<close>




end
